theory Spec2Isabelle
  imports Main "HOL-Library.Word"
begin

unbundle bit_operations_syntax

section \<open>Bytes and byte order\<close>

text \<open>
  The tunnel protocol of the OSDG client library exists in two revisions in the sources:
  \<^verbatim>\<open>src/library/tunnel_protocol.c\<close> (the current one, on \<^verbatim>\<open>struct _osdg_connection\<close>) and
  \<^verbatim>\<open>src/unnamed/part_001\<close> (an earlier one, on \<^verbatim>\<open>struct _osdg_client\<close>). Definitions taken from
  the earlier revision carry the suffix \<open>_001\<close>; a function whose text is the same in both
  revisions is embedded once.

  The headers (\<^verbatim>\<open>tunnel_protocol.h\<close>, \<^verbatim>\<open>client.h\<close>, \<^verbatim>\<open>control_protocol.h\<close>), the socket
  layer, libsodium and the protobuf code are not part of the sources. Their functions are
  taken as parameters (the record \<open>externals\<close> below); the few header macros and inline
  helpers that the properties depend on are modelled from the specification and marked so.
  The build target is WebAssembly, a little-endian machine: a multi-byte field is stored
  least significant byte first, and the byte-swapping macros reverse the bytes.
\<close>

type_synonym byte = "8 word"
type_synonym bytes = "byte list"

text \<open>A value stored in \<open>n\<close> bytes of memory, and read back, on the little-endian host.\<close>

fun store_le :: "nat \<Rightarrow> nat \<Rightarrow> bytes" where
  "store_le 0 v = []"
| "store_le (Suc n) v = of_nat (v mod 256) # store_le n (v div 256)"

fun load_le :: "bytes \<Rightarrow> nat" where
  "load_le [] = 0"
| "load_le (b # bs) = unat b + 256 * load_le bs"

text \<open>
  Modelled from the spec: the macros \<^verbatim>\<open>SWAP_16\<close> and \<^verbatim>\<open>SWAP_64\<close> of the absent header
  (``Endianness (16/64-bit big-endian)'', ``Our protocol wants bigendian data''): the value
  whose bytes in host memory are the big-endian bytes of the argument.
\<close>

definition SWAP_16 :: "16 word \<Rightarrow> 16 word" where
  "SWAP_16 x = of_nat (load_le (rev (store_le 2 (unat x))))"

definition SWAP_64 :: "64 word \<Rightarrow> 64 word" where
  "SWAP_64 x = of_nat (load_le (rev (store_le 8 (unat x))))"

text \<open>An \<^verbatim>\<open>unsigned short\<close> and an \<^verbatim>\<open>unsigned long long\<close> field read from a buffer.\<close>

definition load_u16 :: "bytes \<Rightarrow> 16 word" where
  "load_u16 bs = of_nat (load_le (take 2 bs))"

definition load_u64 :: "bytes \<Rightarrow> 64 word" where
  "load_u64 bs = of_nat (load_le (take 8 bs))"

definition bytes_of_string :: "string \<Rightarrow> bytes" where
  "bytes_of_string s = map of_char s"

section \<open>Constants\<close>

definition sizeof_unsigned_short :: nat where
  "sizeof_unsigned_short = 2"

text \<open>
  Modelled from the spec: \<^verbatim>\<open>struct packet_header\<close> is absent; the frame is
  \<^verbatim>\<open>length:u16 | magic:u16 | command:[4]u8 | payload\<close>, so the header has 8 bytes.
\<close>

definition sizeof_packet_header :: nat where
  "sizeof_packet_header = 8"

definition crypto_box_BOXZEROBYTES :: nat where
  "crypto_box_BOXZEROBYTES = 16"

definition crypto_box_ZEROBYTES :: nat where
  "crypto_box_ZEROBYTES = 32"

text \<open>
  Modelled from the spec: the message types of the absent \<^verbatim>\<open>control_protocol.h\<close>, with the
  values of section 6 of the specification.
\<close>

definition MSG_PROTOCOL_VERSION :: byte where "MSG_PROTOCOL_VERSION = 0x01"
definition MSG_PEER_REPLY :: byte where "MSG_PEER_REPLY = 0x03"
definition MSG_FORWARD_HOLD :: byte where "MSG_FORWARD_HOLD = 0x0F"
definition MSG_FORWARD_REMOTE :: byte where "MSG_FORWARD_REMOTE = 0x10"
definition MSG_FORWARD_REPLY :: byte where "MSG_FORWARD_REPLY = 0x11"
definition MSG_FORWARD_ERROR :: byte where "MSG_FORWARD_ERROR = 0x12"

text \<open>
  Modelled from the spec: the commands of the absent \<^verbatim>\<open>tunnel_protocol.h\<close> are the 4-character
  tags of the frame header, here the four bytes as they lie in the buffer.
\<close>

definition CMD_TELL :: bytes where "CMD_TELL = [0x54, 0x45, 0x4C, 0x4C]"
definition CMD_WELC :: bytes where "CMD_WELC = [0x57, 0x45, 0x4C, 0x43]"
definition CMD_HELO :: bytes where "CMD_HELO = [0x48, 0x45, 0x4C, 0x4F]"
definition CMD_COOK :: bytes where "CMD_COOK = [0x43, 0x4F, 0x4F, 0x4B]"
definition CMD_VOCH :: bytes where "CMD_VOCH = [0x56, 0x4F, 0x43, 0x48]"
definition CMD_REDY :: bytes where "CMD_REDY = [0x52, 0x45, 0x44, 0x59]"
definition CMD_MESG :: bytes where "CMD_MESG = [0x4D, 0x45, 0x53, 0x47]"

section \<open>Enumerations and messages\<close>

text \<open>
  \<^verbatim>\<open>enum osdg_error_kind\<close>, which is also \<^verbatim>\<open>osdg_result_t\<close>: the values that the sources name.
\<close>

datatype osdg_error_kind =
    osdg_no_error
  | osdg_socket_error
  | osdg_crypto_core_error
  | osdg_decryption_error
  | osdg_encryption_error
  | osdg_protocol_error
  | osdg_buffer_exceeded
  | osdg_server_error
  | osdg_peer_timeout
  | osdg_system_error

text \<open>
  The mode of a connection: \<^verbatim>\<open>mode_grid\<close> and \<^verbatim>\<open>mode_peer\<close> are named in \<^verbatim>\<open>receive_packet\<close>, which
  also provides for a mode that is neither. Modelled from the spec: the status of a
  connection, of which the sources name \<^verbatim>\<open>osdg_connected\<close> only, is one of closed, connecting,
  handshaking, forwarding, connected, failed.
\<close>

datatype connection_mode = mode_none | mode_grid | mode_peer

datatype osdg_status =
    osdg_closed
  | osdg_connecting
  | osdg_handshaking
  | osdg_forwarding
  | osdg_connected
  | osdg_failed

text \<open>
  The \<open>code\<close> of a \<^verbatim>\<open>ForwardError\<close>: the two values that \<^verbatim>\<open>receive_packet\<close> names in its
  \<^verbatim>\<open>switch\<close> (distinct, as case labels are) and every other value of the field.
\<close>

datatype forward_error_code =
    FORWARD_SERVER_ERROR
  | FORWARD_PEER_TIMEOUT
  | FORWARD_OTHER int

record ForwardReply =
  signature :: string

record ForwardError =
  code :: forward_error_code

record ProtocolVersion =
  pv_magic :: "32 word"
  pv_major :: "32 word"
  pv_minor :: "32 word"

record PeerReply =
  pr_id :: "32 word"

section \<open>Packets\<close>

record packet_header =
  h_size :: "16 word"
  h_magic :: "16 word"
  h_command :: bytes

text \<open>
  The \<^verbatim>\<open>union curvecp_nonce\<close>: a 16-character prefix and a 64-bit value (short-term), or an
  8-character prefix and 16 bytes (long-term). \<open>nonce_value_2\<close> is \<^verbatim>\<open>nonce.value[2]\<close>, the
  last 8 bytes; \<open>nonce_value_1_2\<close> is \<^verbatim>\<open>nonce.value[1]\<close> and \<^verbatim>\<open>nonce.value[2]\<close>, the last 16.
\<close>

datatype curvecp_nonce =
    Short_term_nonce string "64 word"
  | Long_term_nonce string bytes

definition build_short_term_nonce :: "string \<Rightarrow> 64 word \<Rightarrow> curvecp_nonce" where
  "build_short_term_nonce prefix v = Short_term_nonce prefix v"

definition build_long_term_nonce :: "string \<Rightarrow> bytes \<Rightarrow> curvecp_nonce" where
  "build_long_term_nonce prefix tail = Long_term_nonce prefix (take 16 tail)"

fun nonce_value_2 :: "curvecp_nonce \<Rightarrow> 64 word" where
  "nonce_value_2 (Short_term_nonce prefix v) = v"
| "nonce_value_2 (Long_term_nonce prefix tail) = load_u64 (drop 8 tail)"

fun nonce_value_1_2 :: "curvecp_nonce \<Rightarrow> bytes" where
  "nonce_value_1_2 (Short_term_nonce prefix v) =
     bytes_of_string (drop 8 prefix) @ store_le 8 (unat v)"
| "nonce_value_1_2 (Long_term_nonce prefix tail) = tail"

text \<open>
  \<^verbatim>\<open>struct certificate_data\<close>, the key-value record behind the outer vouch data. Modelled
  from the spec: the declaration is absent; the fields are one length byte, the 11
  characters of the prefix, one length byte and the 32 bytes of the key.
\<close>

record certificate_data =
  prefixLength :: byte
  prefix :: string
  keyLength :: byte
  key :: bytes

definition sizeof_cert_key :: nat where
  "sizeof_cert_key = 32"

definition sizeof_certificate_data :: nat where
  "sizeof_certificate_data = 1 + 11 + 1 + sizeof_cert_key"

definition certificate_data_bytes :: "certificate_data \<Rightarrow> bytes" where
  "certificate_data_bytes cert =
     prefixLength cert # bytes_of_string (prefix cert) @ keyLength cert # key cert"

text \<open>
  \<^verbatim>\<open>struct curvecp_vouch_outer\<close>. \<open>certificate\<close> is the flexible array at its end, as far as
  the length handed to the encryption covers it.
\<close>

record curvecp_vouch_outer =
  outerPad :: bytes
  vouch_clientPubkey :: bytes
  vouch_nonce :: bytes
  curvecp_vouch_inner :: bytes
  haveCertificate :: byte
  certificate :: bytes

text \<open>The outer vouch data of the earlier revision, with the certificate as fixed fields.\<close>

record curvecp_vouch_outer_001 =
  outerPad_001 :: bytes
  vouch_clientPubkey_001 :: bytes
  vouch_nonce_001 :: bytes
  curvecp_vouch_inner_001 :: bytes
  certStrType :: byte
  certStrLength :: byte
  certStr :: string
  valueType :: byte
  valueLength :: byte
  license :: bytes

text \<open>What is handed to an encryption: the buffers that the code fills before the call.\<close>

datatype plaintext =
    Plain_zeroMsg nat
  | Plain_vouch_inner bytes bytes
  | Plain_vouch_outer curvecp_vouch_outer
  | Plain_vouch_outer_001 curvecp_vouch_outer_001
  | Plain_mesg_payload bytes "16 word" bytes

text \<open>
  What is handed to \<^verbatim>\<open>send_data\<close>: a bare header; \<^verbatim>\<open>struct packetHELO\<close> (header, clientPubkey,
  nonce, ciphertext); \<^verbatim>\<open>struct packetVOCH\<close> (header, cookie, nonce, encrypted outer data);
  \<^verbatim>\<open>struct packetMESG\<close> (header, nonce, encrypted payload).
\<close>

datatype packet =
    Packet_header packet_header
  | Packet_HELO packet_header bytes "64 word" bytes
  | Packet_VOCH packet_header bytes "64 word" bytes
  | Packet_MESG packet_header "64 word" bytes

fun packet_header_of :: "packet \<Rightarrow> packet_header" where
  "packet_header_of (Packet_header h) = h"
| "packet_header_of (Packet_HELO h k n c) = h"
| "packet_header_of (Packet_VOCH h k n c) = h"
| "packet_header_of (Packet_MESG h n c) = h"

section \<open>The connection and the outside world\<close>

text \<open>
  Every call that leaves the translation unit is recorded, in order, in the field \<open>calls\<close>
  of the connection: it is the observable behaviour that the properties speak about
  (what is sent, what is encrypted, whether the socket is read again).
\<close>

datatype call =
    Call_receive_data
  | Call_send_data packet nat
  | Call_crypto_box_keypair
  | Call_randombytes nat
  | Call_crypto_box plaintext nat curvecp_nonce bytes bytes
  | Call_crypto_box_open bytes nat curvecp_nonce bytes bytes
  | Call_crypto_box_beforenm bytes bytes
  | Call_crypto_box_afternm plaintext nat curvecp_nonce bytes
  | Call_crypto_box_open_afternm bytes nat curvecp_nonce bytes
  | Call_connection_set_status osdg_status
  | Call_connection_handle_data bytes nat
  | Call_peer_handle_connect_reply nat PeerReply

text \<open>
  \<^verbatim>\<open>struct _osdg_connection\<close> (and \<^verbatim>\<open>struct _osdg_client\<close> of the earlier revision, which has
  the same fields as far as the code below reads them, without \<open>mode\<close> and \<open>status\<close>).
  \<open>world\<close> stands for what the connection points to and the code below never reads
  itself: the socket, the random generator, the peers.
\<close>

record 'w osdg_connection =
  clientPubkey :: bytes
  clientSecret :: bytes
  serverPubkey :: bytes
  clientTempPubkey :: bytes
  clientTempSecret :: bytes
  serverCookie :: bytes
  beforenmData :: bytes
  nonce :: "64 word"
  mode :: connection_mode
  status :: osdg_status
  errorKind :: osdg_error_kind
  bufferSize :: nat
  receiveBuffer :: bytes
  bytesReceived :: nat
  bytesLeft :: nat
  world :: 'w
  calls :: "call list"

text \<open>
  The functions and constants that the sources use and do not contain. A decryption or an
  encryption that returns non-zero is \<open>None\<close>; a decoder that returns \<^verbatim>\<open>NULL\<close> is \<open>None\<close>.
  \<open>crypto_box_open\<close> yields the two fields of \<^verbatim>\<open>struct curvecp_cookie\<close>
  (\<^verbatim>\<open>serverShortTermPubkey\<close>, \<^verbatim>\<open>cookie\<close>); \<open>crypto_box_open_afternm\<close> yields the message
  behind its zero padding. \<open>protobuf_c_message_pack\<close> yields the packed bytes of a message,
  whose number is \<^verbatim>\<open>protobuf_c_message_get_packed_size\<close>; the one message that this code packs
  is a \<^verbatim>\<open>ProtocolVersion\<close>. A peer is named by its address.
\<close>

record 'w externals =
  PACKET_MAGIC :: "16 word"
  FORWARD_REMOTE_SIGNATURE :: string
  PROTOCOL_VERSION_MAGIC :: "32 word"
  PROTOCOL_VERSION_MAJOR :: "32 word"
  PROTOCOL_VERSION_MINOR :: "32 word"
  sizeof_packetHELO :: nat
  sizeof_helo_ciphertext :: nat
  sizeof_curvecp_cookie :: nat
  sizeof_curvecp_vouch_inner :: nat
  sizeof_curvecp_vouch_outer :: nat
  sizeof_packetVOCH :: nat
  sizeof_packetMESG :: nat
  sizeof_mesg_payload :: nat
  sizeof_packetVOCH_001 :: nat
  sizeof_curvecp_vouch_outer_001 :: nat
  sizeof_certStr :: nat
  sizeof_license :: nat
  receive_data :: "'w osdg_connection \<Rightarrow> int \<times> 'w osdg_connection"
  send_data :: "packet \<Rightarrow> nat \<Rightarrow> 'w osdg_connection \<Rightarrow> osdg_error_kind \<times> 'w"
  send_data_001 :: "packet \<Rightarrow> nat \<Rightarrow> 'w osdg_connection \<Rightarrow> int \<times> 'w"
  crypto_box_keypair :: "'w \<Rightarrow> (bytes \<times> bytes) \<times> 'w"
  randombytes :: "nat \<Rightarrow> 'w \<Rightarrow> bytes \<times> 'w"
  crypto_box :: "plaintext \<Rightarrow> nat \<Rightarrow> curvecp_nonce \<Rightarrow> bytes \<Rightarrow> bytes \<Rightarrow> bytes option"
  crypto_box_open ::
    "bytes \<Rightarrow> nat \<Rightarrow> curvecp_nonce \<Rightarrow> bytes \<Rightarrow> bytes \<Rightarrow> (bytes \<times> bytes) option"
  crypto_box_beforenm :: "bytes \<Rightarrow> bytes \<Rightarrow> bytes option"
  crypto_box_afternm :: "plaintext \<Rightarrow> nat \<Rightarrow> curvecp_nonce \<Rightarrow> bytes \<Rightarrow> bytes option"
  crypto_box_open_afternm :: "bytes \<Rightarrow> nat \<Rightarrow> curvecp_nonce \<Rightarrow> bytes \<Rightarrow> bytes option"
  forward_reply__unpack :: "bytes \<Rightarrow> ForwardReply option"
  forward_error__unpack :: "bytes \<Rightarrow> ForwardError option"
  protocol_version__unpack :: "bytes \<Rightarrow> ProtocolVersion option"
  peer_reply__unpack :: "bytes \<Rightarrow> PeerReply option"
  protobuf_c_message_pack :: "ProtocolVersion \<Rightarrow> bytes"
  connection_handle_data ::
    "bytes \<Rightarrow> nat \<Rightarrow> 'w osdg_connection \<Rightarrow> osdg_error_kind \<times> 'w osdg_connection"
  client_find_peer :: "'w osdg_connection \<Rightarrow> 32 word \<Rightarrow> nat option"
  peer_handle_connect_reply :: "nat \<Rightarrow> PeerReply \<Rightarrow> 'w \<Rightarrow> int \<times> 'w"

section \<open>Calls to the outside\<close>

text \<open>
  Each external function is called through a wrapper that appends the call to \<open>calls\<close>.
  The log is appended to the log as it was before the call, so that no external function
  can rewrite it.
\<close>

definition call_receive_data ::
  "'w externals \<Rightarrow> 'w osdg_connection \<Rightarrow> int \<times> 'w osdg_connection" where
  "call_receive_data E client =
     (case receive_data E client of
        (ret, client') \<Rightarrow> (ret, client'\<lparr>calls := calls client @ [Call_receive_data]\<rparr>))"

definition call_send_data ::
  "'w externals \<Rightarrow> packet \<Rightarrow> nat \<Rightarrow> 'w osdg_connection \<Rightarrow> osdg_error_kind \<times> 'w osdg_connection" where
  "call_send_data E buffer n client =
     (case send_data E buffer n client of
        (res, w) \<Rightarrow> (res, client\<lparr>world := w, calls := calls client @ [Call_send_data buffer n]\<rparr>))"

definition call_send_data_001 ::
  "'w externals \<Rightarrow> packet \<Rightarrow> nat \<Rightarrow> 'w osdg_connection \<Rightarrow> int \<times> 'w osdg_connection" where
  "call_send_data_001 E buffer n client =
     (case send_data_001 E buffer n client of
        (res, w) \<Rightarrow> (res, client\<lparr>world := w, calls := calls client @ [Call_send_data buffer n]\<rparr>))"

definition call_crypto_box_keypair ::
  "'w externals \<Rightarrow> 'w osdg_connection \<Rightarrow> 'w osdg_connection" where
  "call_crypto_box_keypair E client =
     (case crypto_box_keypair E (world client) of
        ((pk, sk), w) \<Rightarrow>
          client\<lparr>clientTempPubkey := pk, clientTempSecret := sk, world := w,
                 calls := calls client @ [Call_crypto_box_keypair]\<rparr>)"

definition call_randombytes ::
  "'w externals \<Rightarrow> nat \<Rightarrow> 'w osdg_connection \<Rightarrow> bytes \<times> 'w osdg_connection" where
  "call_randombytes E n client =
     (case randombytes E n (world client) of
        (r, w) \<Rightarrow> (r, client\<lparr>world := w, calls := calls client @ [Call_randombytes n]\<rparr>))"

definition call_crypto_box ::
  "'w externals \<Rightarrow> plaintext \<Rightarrow> nat \<Rightarrow> curvecp_nonce \<Rightarrow> bytes \<Rightarrow> bytes \<Rightarrow> 'w osdg_connection
     \<Rightarrow> bytes option \<times> 'w osdg_connection" where
  "call_crypto_box E m n nc pk sk client =
     (crypto_box E m n nc pk sk,
      client\<lparr>calls := calls client @ [Call_crypto_box m n nc pk sk]\<rparr>)"

definition call_crypto_box_open ::
  "'w externals \<Rightarrow> bytes \<Rightarrow> nat \<Rightarrow> curvecp_nonce \<Rightarrow> bytes \<Rightarrow> bytes \<Rightarrow> 'w osdg_connection
     \<Rightarrow> (bytes \<times> bytes) option \<times> 'w osdg_connection" where
  "call_crypto_box_open E c n nc pk sk client =
     (crypto_box_open E c n nc pk sk,
      client\<lparr>calls := calls client @ [Call_crypto_box_open c n nc pk sk]\<rparr>)"

definition call_crypto_box_beforenm ::
  "'w externals \<Rightarrow> bytes \<Rightarrow> bytes \<Rightarrow> 'w osdg_connection \<Rightarrow> bytes option \<times> 'w osdg_connection" where
  "call_crypto_box_beforenm E pk sk client =
     (crypto_box_beforenm E pk sk,
      client\<lparr>calls := calls client @ [Call_crypto_box_beforenm pk sk]\<rparr>)"

definition call_crypto_box_afternm ::
  "'w externals \<Rightarrow> plaintext \<Rightarrow> nat \<Rightarrow> curvecp_nonce \<Rightarrow> bytes \<Rightarrow> 'w osdg_connection
     \<Rightarrow> bytes option \<times> 'w osdg_connection" where
  "call_crypto_box_afternm E m n nc k client =
     (crypto_box_afternm E m n nc k,
      client\<lparr>calls := calls client @ [Call_crypto_box_afternm m n nc k]\<rparr>)"

definition call_crypto_box_open_afternm ::
  "'w externals \<Rightarrow> bytes \<Rightarrow> nat \<Rightarrow> curvecp_nonce \<Rightarrow> bytes \<Rightarrow> 'w osdg_connection
     \<Rightarrow> bytes option \<times> 'w osdg_connection" where
  "call_crypto_box_open_afternm E c n nc k client =
     (crypto_box_open_afternm E c n nc k,
      client\<lparr>calls := calls client @ [Call_crypto_box_open_afternm c n nc k]\<rparr>)"

definition call_connection_handle_data ::
  "'w externals \<Rightarrow> bytes \<Rightarrow> nat \<Rightarrow> 'w osdg_connection \<Rightarrow> osdg_error_kind \<times> 'w osdg_connection" where
  "call_connection_handle_data E d n client =
     (case connection_handle_data E d n client of
        (res, client') \<Rightarrow>
          (res, client'\<lparr>calls := calls client @ [Call_connection_handle_data d n]\<rparr>))"

definition call_peer_handle_connect_reply ::
  "'w externals \<Rightarrow> nat \<Rightarrow> PeerReply \<Rightarrow> 'w osdg_connection \<Rightarrow> int \<times> 'w osdg_connection" where
  "call_peer_handle_connect_reply E peer reply client =
     (case peer_handle_connect_reply E peer reply (world client) of
        (ret, w) \<Rightarrow>
          (ret, client\<lparr>world := w,
                        calls := calls client @ [Call_peer_handle_connect_reply peer reply]\<rparr>))"

text \<open>What a log holds of packets sent and of symmetric encryptions.\<close>

fun sent_packets :: "call list \<Rightarrow> (packet \<times> nat) list" where
  "sent_packets [] = []"
| "sent_packets (Call_send_data p n # cs) = (p, n) # sent_packets cs"
| "sent_packets (c # cs) = sent_packets cs"


section \<open>Helpers of the connection object\<close>

text \<open>
  Modelled from the spec: \<^verbatim>\<open>connection_set_result\<close> and \<^verbatim>\<open>connection_set_status\<close> of the absent
  \<^verbatim>\<open>client.c\<close>. ``\<^verbatim>\<open>set_result(err)\<close>: sets error kind if non-zero and transitions to
  \<^verbatim>\<open>failed\<close>''; ``\<^verbatim>\<open>set_status(new)\<close>: atomic status update; notifies the status callback''.
  The result of \<^verbatim>\<open>connection_set_result\<close> is the \<^verbatim>\<open>int\<close> that \<^verbatim>\<open>receive_packet\<close> returns:
  0 for success and -1 for failure, as on its other paths.
\<close>

definition connection_set_result ::
  "'w osdg_connection \<Rightarrow> osdg_error_kind \<Rightarrow> int \<times> 'w osdg_connection" where
  "connection_set_result conn res =
     (if res = osdg_no_error then (0, conn)
      else (- 1, conn\<lparr>errorKind := res, status := osdg_failed\<rparr>))"

definition connection_set_status ::
  "'w osdg_connection \<Rightarrow> osdg_status \<Rightarrow> 'w osdg_connection" where
  "connection_set_status conn st =
     conn\<lparr>status := st, calls := calls conn @ [Call_connection_set_status st]\<rparr>"

text \<open>
  Modelled from the spec: \<^verbatim>\<open>build_header\<close>, \<^verbatim>\<open>PACKET_SIZE\<close> and \<^verbatim>\<open>MESG_CIPHERTEXT_SIZE\<close> of the
  absent \<^verbatim>\<open>tunnel_protocol.h\<close>. The length field is big-endian and excludes itself; the
  encrypted part of a \<^verbatim>\<open>MESG\<close> or \<^verbatim>\<open>REDY\<close> follows the header and the 8 bytes of the nonce.
\<close>

definition build_header :: "'w externals \<Rightarrow> bytes \<Rightarrow> nat \<Rightarrow> packet_header" where
  "build_header E cmd n =
     \<lparr>h_size = SWAP_16 (of_nat n - 2), h_magic = PACKET_MAGIC E, h_command = cmd\<rparr>"

definition PACKET_SIZE :: "packet_header \<Rightarrow> nat" where
  "PACKET_SIZE header = unat (SWAP_16 (h_size header)) + sizeof_unsigned_short"

text \<open>The header that lies at the start of the receive buffer.\<close>

definition received_header :: "bytes \<Rightarrow> packet_header" where
  "received_header buf =
     \<lparr>h_size = load_u16 buf, h_magic = load_u16 (drop 2 buf), h_command = take 4 (drop 4 buf)\<rparr>"

definition MESG_CIPHERTEXT_SIZE :: "packet_header \<Rightarrow> 32 word" where
  "MESG_CIPHERTEXT_SIZE header = of_nat (PACKET_SIZE header) - 16"

section \<open>Sending\<close>

text \<open>\<^verbatim>\<open>send_packet\<close> (both revisions; the earlier one returns the \<^verbatim>\<open>int\<close> of \<^verbatim>\<open>send_data\<close>).\<close>

definition send_packet ::
  "'w externals \<Rightarrow> packet \<Rightarrow> 'w osdg_connection \<Rightarrow> osdg_error_kind \<times> 'w osdg_connection" where
  "send_packet E p conn = call_send_data E p (PACKET_SIZE (packet_header_of p)) conn"

definition send_packet_001 ::
  "'w externals \<Rightarrow> packet \<Rightarrow> 'w osdg_connection \<Rightarrow> int \<times> 'w osdg_connection" where
  "send_packet_001 E p client = call_send_data_001 E p (PACKET_SIZE (packet_header_of p)) client"

text \<open>\<^verbatim>\<open>sendTELL\<close> of \<^verbatim>\<open>tunnel_protocol.c\<close>.\<close>

definition sendTELL :: "'w externals \<Rightarrow> 'w osdg_connection \<Rightarrow> int \<times> 'w osdg_connection" where
  "sendTELL E conn =
     (let tell = build_header E CMD_TELL sizeof_packet_header;
          (res, conn) = send_packet E (Packet_header tell) conn
      in connection_set_result conn res)"

text \<open>\<^verbatim>\<open>client_get_nonce\<close> (the same text in both revisions): post-increment, then swap.\<close>

definition client_get_nonce :: "'w osdg_connection \<Rightarrow> 64 word \<times> 'w osdg_connection" where
  "client_get_nonce client =
     (let nonce_local = nonce client;
          client = client\<lparr>nonce := nonce client + 1\<rparr>
      in (SWAP_64 nonce_local, client))"


text \<open>
  \<^verbatim>\<open>decryptMESG\<close> (the same text in both revisions). The packet is decrypted in place: the
  16 bytes before the ciphertext (header and nonce) are zeroed, and on success the buffer
  holds the zero padding and the message. The result stands for the pointer \<^verbatim>\<open>payload\<close>:
  \<open>None\<close> for \<^verbatim>\<open>NULL\<close>, and otherwise the bytes that lie behind the padding.
\<close>

definition decryptMESG ::
  "'w externals \<Rightarrow> string \<Rightarrow> 'w osdg_connection \<Rightarrow> bytes option \<times> 'w osdg_connection" where
  "decryptMESG E nonce_prefix client =
     (let buf = receiveBuffer client;
          len = unat (MESG_CIPHERTEXT_SIZE (received_header buf));
          nc = build_short_term_nonce nonce_prefix (load_u64 (drop 8 buf));
          client = client\<lparr>receiveBuffer := replicate 16 0 @ drop 16 buf\<rparr>;
          (res, client) =
            call_crypto_box_open_afternm E
              (take (len + crypto_box_BOXZEROBYTES) (receiveBuffer client))
              (len + crypto_box_BOXZEROBYTES) nc (beforenmData client) client
      in case res of
           None \<Rightarrow> (None, client\<lparr>errorKind := osdg_decryption_error\<rparr>)
         | Some m \<Rightarrow>
             (let client =
                    client\<lparr>receiveBuffer :=
                             replicate crypto_box_ZEROBYTES 0 @ m
                             @ drop (crypto_box_ZEROBYTES + length m) (receiveBuffer client)\<rparr>
              in (Some (drop crypto_box_ZEROBYTES (receiveBuffer client)), client)))"

text \<open>\<^verbatim>\<open>get_MESG_packet\<close>, \<^verbatim>\<open>send_MESG_packet\<close> and \<^verbatim>\<open>sendMESG\<close> of \<^verbatim>\<open>tunnel_protocol.c\<close>.
  The packet under construction is the pair of the stored size field and the data.\<close>

definition get_MESG_packet ::
  "'w externals \<Rightarrow> 'w osdg_connection \<Rightarrow> nat \<Rightarrow> 16 word option \<times> 'w osdg_connection" where
  "get_MESG_packet E client dataSize =
     (let packetSize = sizeof_packetMESG E + dataSize
      in if packetSize > bufferSize client
         then (None, client\<lparr>errorKind := osdg_buffer_exceeded\<rparr>)
         else (Some (SWAP_16 (of_nat dataSize)), client))"

definition send_MESG_packet ::
  "'w externals \<Rightarrow> 'w osdg_connection \<Rightarrow> 16 word \<Rightarrow> bytes
     \<Rightarrow> osdg_error_kind \<times> 'w osdg_connection" where
  "send_MESG_packet E conn payload_size payload_data =
     (let dataSize = unat (SWAP_16 payload_size);
          payload = Plain_mesg_payload (replicate crypto_box_ZEROBYTES 0) payload_size payload_data;
          (n, conn) = client_get_nonce conn;
          nc = build_short_term_nonce ''CurveCP-client-M'' n;
          (res, conn) =
            call_crypto_box_afternm E payload (sizeof_mesg_payload E + dataSize) nc
              (beforenmData conn) conn
      in case res of
           None \<Rightarrow> (osdg_crypto_core_error, conn)
         | Some c \<Rightarrow>
             send_packet E
               (Packet_MESG (build_header E CMD_MESG (sizeof_packetMESG E + dataSize))
                  (nonce_value_2 nc) c)
               conn)"

definition sendMESG ::
  "'w externals \<Rightarrow> 'w osdg_connection \<Rightarrow> byte \<Rightarrow> ProtocolVersion
     \<Rightarrow> osdg_error_kind \<times> 'w osdg_connection" where
  "sendMESG E client dataType data =
     (let dataSize = length (protobuf_c_message_pack E data) + 1;
          (mesg, client) = get_MESG_packet E client dataSize
      in case mesg of
           None \<Rightarrow> (osdg_buffer_exceeded, client)
         | Some payload_size \<Rightarrow>
             send_MESG_packet E client payload_size
               (dataType # protobuf_c_message_pack E data))"

section \<open>Receiving: \<^verbatim>\<open>receive_packet\<close> of \<^verbatim>\<open>tunnel_protocol.c\<close>\<close>

text \<open>
  The size that the two length bytes declare:
  \<^verbatim>\<open>(client->receiveBuffer[0] << 8) | client->receiveBuffer[1]\<close>.
\<close>

definition declared_size :: "bytes \<Rightarrow> 32 word" where
  "declared_size buf = push_bit 8 (ucast (buf ! 0)) OR ucast (buf ! 1)"

text \<open>
  The reader at the head of \<^verbatim>\<open>receive_packet\<close> (the same text in both revisions), up to
  and excluding \<^verbatim>\<open>if (ret <= 0)\<close>. \<open>Inl\<close> is the \<^verbatim>\<open>return\<close> inside it; \<open>Inr\<close> carries \<^verbatim>\<open>ret\<close>
  on to the rest of the function.
\<close>

definition receive_packet_start :: "'w osdg_connection \<Rightarrow> 'w osdg_connection" where
  "receive_packet_start client =
     (if bytesLeft client = 0
      then client\<lparr>bytesReceived := 0, bytesLeft := sizeof_unsigned_short\<rparr>
      else client)"

definition receive_packet_read ::
  "'w externals \<Rightarrow> 'w osdg_connection
     \<Rightarrow> (int \<times> 'w osdg_connection) + (int \<times> 'w osdg_connection)" where
  "receive_packet_read E client =
     (let (ret, client) = call_receive_data E (receive_packet_start client)
      in if ret = int sizeof_unsigned_short
         then (let sz = declared_size (receiveBuffer client)
               in if unat sz + sizeof_unsigned_short > bufferSize client
                  then Inl (- 1, client\<lparr>errorKind := osdg_buffer_exceeded\<rparr>)
                  else Inr (call_receive_data E (client\<lparr>bytesLeft := unat sz\<rparr>)))
         else Inr (ret, client))"

text \<open>
  \<^verbatim>\<open>strcmp\<close>, of which the caller uses only whether the result is zero. The strings are
  the characters before the terminating zero.
\<close>

definition strcmp :: "string \<Rightarrow> string \<Rightarrow> int" where
  "strcmp a b = (if a = b then 0 else 1)"

text \<open>The payload of a \<^verbatim>\<open>struct DataPacket\<close> in the buffer: \<^verbatim>\<open>length\<close> bytes from \<^verbatim>\<open>&pkt->data[1]\<close>.\<close>

definition DataPacket_payload :: "bytes \<Rightarrow> bytes" where
  "DataPacket_payload buf =
     (let len = (ucast (SWAP_16 (load_u16 buf)) :: 32 word) - 1
      in take (unat len) (drop 3 buf))"

definition receive_packet_MSG_FORWARD_REPLY ::
  "'w externals \<Rightarrow> 'w osdg_connection \<Rightarrow> int \<times> 'w osdg_connection" where
  "receive_packet_MSG_FORWARD_REPLY E client =
     (case forward_reply__unpack E (DataPacket_payload (receiveBuffer client)) of
        None \<Rightarrow> (- 1, client\<lparr>errorKind := osdg_protocol_error\<rparr>)
      | Some reply \<Rightarrow>
          (let ret = strcmp (signature reply) (FORWARD_REMOTE_SIGNATURE E)
           in if ret \<noteq> 0 then (- 1, client) else sendTELL E client))"

definition receive_packet_MSG_FORWARD_ERROR ::
  "'w externals \<Rightarrow> 'w osdg_connection \<Rightarrow> int \<times> 'w osdg_connection" where
  "receive_packet_MSG_FORWARD_ERROR E client =
     (case forward_error__unpack E (DataPacket_payload (receiveBuffer client)) of
        None \<Rightarrow> (- 1, client\<lparr>errorKind := osdg_protocol_error\<rparr>)
      | Some reply \<Rightarrow>
          (case code reply of
             FORWARD_SERVER_ERROR \<Rightarrow> (- 1, client\<lparr>errorKind := osdg_server_error\<rparr>)
           | FORWARD_PEER_TIMEOUT \<Rightarrow> (- 1, client\<lparr>errorKind := osdg_peer_timeout\<rparr>)
           | FORWARD_OTHER c \<Rightarrow> (- 1, client\<lparr>errorKind := osdg_protocol_error\<rparr>)))"

text \<open>
  The branches on \<^verbatim>\<open>header->command\<close>. \<open>Inl\<close> is a \<^verbatim>\<open>return\<close> inside the branch; \<open>Inr\<close> is the
  \<^verbatim>\<open>result\<close> with which the function goes on to \<^verbatim>\<open>connection_set_result\<close>.
  \<^verbatim>\<open>client_get_buffer\<close> and \<^verbatim>\<open>client_put_buffer\<close> only lend the memory in which a packet is
  built; the packet is modelled by its value.
\<close>

definition receive_packet_CMD_WELC ::
  "'w externals \<Rightarrow> 'w osdg_connection
     \<Rightarrow> (int \<times> 'w osdg_connection) + (osdg_error_kind \<times> 'w osdg_connection)" where
  "receive_packet_CMD_WELC E client =
     (let buf = receiveBuffer client;
          client = client\<lparr>serverPubkey := take 32 (drop sizeof_packet_header buf)\<rparr>;
          client = call_crypto_box_keypair E client;
          (n, client) = client_get_nonce client;
          nc = build_short_term_nonce ''CurveCP-client-H'' n;
          sizeof_zeroMsg = sizeof_helo_ciphertext E + crypto_box_BOXZEROBYTES;
          header = build_header E CMD_HELO (sizeof_packetHELO E);
          (res, client) =
            call_crypto_box E (Plain_zeroMsg sizeof_zeroMsg) sizeof_zeroMsg nc
              (serverPubkey client) (clientTempSecret client) client
      in case res of
           None \<Rightarrow> Inl (- 1, client\<lparr>errorKind := osdg_crypto_core_error\<rparr>)
         | Some ciphertext \<Rightarrow>
             Inr (send_packet E
                    (Packet_HELO header (clientTempPubkey client) (nonce_value_2 nc) ciphertext)
                    client))"

text \<open>
  The \<^verbatim>\<open>CMD_COOK\<close> branch in two parts: up to the inner crypto box, and from
  ``Now compose the outer data'' on. The first part yields the inner box and the random
  long-term nonce.
\<close>

definition receive_packet_CMD_COOK_inner ::
  "'w externals \<Rightarrow> 'w osdg_connection
     \<Rightarrow> (int \<times> 'w osdg_connection) + (bytes \<times> curvecp_nonce \<times> 'w osdg_connection)" where
  "receive_packet_CMD_COOK_inner E client =
     (let buf = receiveBuffer client;
          nc = build_long_term_nonce ''CurveCPK'' (drop sizeof_packet_header buf);
          client = client\<lparr>receiveBuffer := take 8 buf @ replicate 16 0 @ drop 24 buf\<rparr>;
          (res, client) =
            call_crypto_box_open E
              (take (sizeof_curvecp_cookie E) (drop 8 (receiveBuffer client)))
              (sizeof_curvecp_cookie E) nc (serverPubkey client) (clientTempSecret client) client
      in case res of
           None \<Rightarrow> Inl (- 1, client\<lparr>errorKind := osdg_decryption_error\<rparr>)
         | Some (serverShortTermPubkey, cookie) \<Rightarrow>
             (let client = client\<lparr>serverCookie := cookie\<rparr>;
                  (res, client) =
                    call_crypto_box_beforenm E serverShortTermPubkey (clientTempSecret client) client
              in case res of
                   None \<Rightarrow> Inl (- 1, client\<lparr>errorKind := osdg_crypto_core_error\<rparr>)
                 | Some k \<Rightarrow>
                     (let client = client\<lparr>beforenmData := k\<rparr>;
                          innerData =
                            Plain_vouch_inner (replicate crypto_box_ZEROBYTES 0)
                              (clientTempPubkey client);
                          (r, client) = call_randombytes E 16 client;
                          nc = Long_term_nonce ''CurveCPV'' r;
                          (res, client) =
                            call_crypto_box E innerData (sizeof_curvecp_vouch_inner E) nc
                              (serverPubkey client) (clientSecret client) client
                      in case res of
                           None \<Rightarrow> Inl (- 1, client\<lparr>errorKind := osdg_crypto_core_error\<rparr>)
                         | Some inner \<Rightarrow> Inr (inner, nc, client))))"

definition receive_packet_CMD_COOK_outer ::
  "'w externals \<Rightarrow> bytes \<Rightarrow> curvecp_nonce \<Rightarrow> 'w osdg_connection
     \<Rightarrow> (int \<times> 'w osdg_connection) + (osdg_error_kind \<times> 'w osdg_connection)" where
  "receive_packet_CMD_COOK_outer E inner nc client =
     (let outerData =
            \<lparr>outerPad = replicate crypto_box_ZEROBYTES 0,
             vouch_clientPubkey = clientPubkey client,
             vouch_nonce = nonce_value_1_2 nc,
             curvecp_vouch_inner = inner,
             haveCertificate = 0,
             certificate = []\<rparr>;
          (outerData, certDataSize) =
            (if mode client = mode_grid
             then (let cert = \<lparr>prefixLength = 11, prefix = ''certificate'',
                                keyLength = of_nat sizeof_cert_key,
                                key = replicate sizeof_cert_key 0\<rparr>
                   in (outerData\<lparr>haveCertificate := 1,
                                  certificate := certificate_data_bytes cert\<rparr>,
                       sizeof_certificate_data))
             else (outerData\<lparr>haveCertificate := 0\<rparr>, 0));
          header = build_header E CMD_VOCH (sizeof_packetVOCH E + certDataSize);
          (n, client) = client_get_nonce client;
          nc = build_short_term_nonce ''CurveCP-client-I'' n;
          (res, client) =
            call_crypto_box_afternm E (Plain_vouch_outer outerData)
              (sizeof_curvecp_vouch_outer E + certDataSize) nc (beforenmData client) client
      in case res of
           None \<Rightarrow> Inl (- 1, client\<lparr>errorKind := osdg_crypto_core_error\<rparr>)
         | Some c \<Rightarrow>
             Inr (send_packet E
                    (Packet_VOCH header (serverCookie client) (nonce_value_2 nc) c) client))"

definition receive_packet_CMD_COOK ::
  "'w externals \<Rightarrow> 'w osdg_connection
     \<Rightarrow> (int \<times> 'w osdg_connection) + (osdg_error_kind \<times> 'w osdg_connection)" where
  "receive_packet_CMD_COOK E client =
     (case receive_packet_CMD_COOK_inner E client of
        Inl r \<Rightarrow> Inl r
      | Inr (inner, nc, client) \<Rightarrow> receive_packet_CMD_COOK_outer E inner nc client)"

definition receive_packet_CMD_REDY ::
  "'w externals \<Rightarrow> 'w osdg_connection
     \<Rightarrow> (int \<times> 'w osdg_connection) + (osdg_error_kind \<times> 'w osdg_connection)" where
  "receive_packet_CMD_REDY E client =
     (let (payload, client) = decryptMESG E ''CurveCP-server-R'' client
      in case payload of
           None \<Rightarrow> Inl (- 1, client)
         | Some p \<Rightarrow>
             if mode client \<noteq> mode_grid
             then Inl (0, if mode client = mode_peer
                          then connection_set_status client osdg_connected
                          else client)
             else (let protocolVer =
                         \<lparr>pv_magic = PROTOCOL_VERSION_MAGIC E,
                          pv_major = PROTOCOL_VERSION_MAJOR E,
                          pv_minor = PROTOCOL_VERSION_MINOR E\<rparr>
                   in Inr (sendMESG E client MSG_PROTOCOL_VERSION protocolVer)))"

definition receive_packet_CMD_MESG ::
  "'w externals \<Rightarrow> 'w osdg_connection
     \<Rightarrow> (int \<times> 'w osdg_connection) + (osdg_error_kind \<times> 'w osdg_connection)" where
  "receive_packet_CMD_MESG E client =
     (let (payload, client) = decryptMESG E ''CurveCP-server-M'' client
      in case payload of
           None \<Rightarrow> Inl (- 1, client)
         | Some p \<Rightarrow>
             (let len = unat (SWAP_16 (load_u16 p))
              in Inr (call_connection_handle_data E (drop 2 p) len client)))"

text \<open>The function from \<^verbatim>\<open>if (ret <= 0)\<close> on.\<close>

definition receive_packet_frame ::
  "'w externals \<Rightarrow> int \<Rightarrow> 'w osdg_connection \<Rightarrow> int \<times> 'w osdg_connection" where
  "receive_packet_frame E ret client =
     (let buf = receiveBuffer client;
          header = received_header buf;
          finish = (\<lambda>r. case r of
                      Inl ret_client \<Rightarrow> ret_client
                    | Inr (res, client) \<Rightarrow> connection_set_result client res)
      in if ret \<le> 0 then (ret, client)
         else if buf ! 2 = MSG_FORWARD_HOLD then (0, client)
         else if buf ! 2 = MSG_FORWARD_REPLY then receive_packet_MSG_FORWARD_REPLY E client
         else if buf ! 2 = MSG_FORWARD_ERROR then receive_packet_MSG_FORWARD_ERROR E client
         else if ret < int sizeof_packet_header
           then (- 1, client\<lparr>errorKind := osdg_protocol_error\<rparr>)
         else if h_magic header \<noteq> PACKET_MAGIC E
           then (- 1, client\<lparr>errorKind := osdg_protocol_error\<rparr>)
         else if h_command header = CMD_WELC then finish (receive_packet_CMD_WELC E client)
         else if h_command header = CMD_COOK then finish (receive_packet_CMD_COOK E client)
         else if h_command header = CMD_REDY then finish (receive_packet_CMD_REDY E client)
         else if h_command header = CMD_MESG then finish (receive_packet_CMD_MESG E client)
         else (0, client))"

definition receive_packet ::
  "'w externals \<Rightarrow> 'w osdg_connection \<Rightarrow> int \<times> 'w osdg_connection" where
  "receive_packet E client =
     (case receive_packet_read E client of
        Inl ret_client \<Rightarrow> ret_client
      | Inr (ret, client) \<Rightarrow> receive_packet_frame E ret client)"

section \<open>Receiving: \<^verbatim>\<open>receive_packet\<close> of the earlier revision (\<^verbatim>\<open>part_001\<close>)\<close>

text \<open>
  \<^verbatim>\<open>sendMESG\<close> of the earlier revision. It returns an \<^verbatim>\<open>int\<close>; a failed encryption returns
  the non-zero result of libsodium, which is -1.
\<close>

definition sendMESG_001 ::
  "'w externals \<Rightarrow> 'w osdg_connection \<Rightarrow> byte \<Rightarrow> ProtocolVersion \<Rightarrow> int \<times> 'w osdg_connection" where
  "sendMESG_001 E client dataType data =
     (let dataSize = length (protobuf_c_message_pack E data);
          packetSize = sizeof_packetMESG E + dataSize
      in if packetSize > bufferSize client
         then (- 1, client\<lparr>errorKind := osdg_buffer_exceeded\<rparr>)
         else (let payload =
                     Plain_mesg_payload (replicate crypto_box_ZEROBYTES 0)
                       (SWAP_16 (of_nat (dataSize + 1)))
                       (dataType # protobuf_c_message_pack E data);
                   (n, client) = client_get_nonce client;
                   nc = build_short_term_nonce ''CurveCP-client-M'' n;
                   (res, client) =
                     call_crypto_box_afternm E payload (sizeof_mesg_payload E + dataSize) nc
                       (beforenmData client) client
               in case res of
                    None \<Rightarrow> (- 1, client\<lparr>errorKind := osdg_encryption_error\<rparr>)
                  | Some c \<Rightarrow>
                      send_packet_001 E
                        (Packet_MESG (build_header E CMD_MESG packetSize) (nonce_value_2 nc) c)
                        client))"

definition receive_packet_CMD_WELC_001 ::
  "'w externals \<Rightarrow> 'w osdg_connection \<Rightarrow> int \<times> 'w osdg_connection" where
  "receive_packet_CMD_WELC_001 E client =
     (let buf = receiveBuffer client;
          client = client\<lparr>serverPubkey := take 32 (drop sizeof_packet_header buf)\<rparr>;
          client = call_crypto_box_keypair E client;
          (n, client) = client_get_nonce client;
          nc = build_short_term_nonce ''CurveCP-client-H'' n;
          sizeof_zeroMsg = sizeof_helo_ciphertext E + crypto_box_BOXZEROBYTES;
          header = build_header E CMD_HELO (sizeof_packetHELO E);
          (res, client) =
            call_crypto_box E (Plain_zeroMsg sizeof_zeroMsg) sizeof_zeroMsg nc
              (serverPubkey client) (clientTempSecret client) client
      in case res of
           None \<Rightarrow> (- 1, client\<lparr>errorKind := osdg_encryption_error\<rparr>)
         | Some ciphertext \<Rightarrow>
             send_packet_001 E
               (Packet_HELO header (clientTempPubkey client) (nonce_value_2 nc) ciphertext)
               client)"

definition receive_packet_CMD_COOK_001 ::
  "'w externals \<Rightarrow> 'w osdg_connection \<Rightarrow> int \<times> 'w osdg_connection" where
  "receive_packet_CMD_COOK_001 E client =
     (let buf = receiveBuffer client;
          nc = build_long_term_nonce ''CurveCPK'' (drop sizeof_packet_header buf);
          client = client\<lparr>receiveBuffer := take 8 buf @ replicate 16 0 @ drop 24 buf\<rparr>;
          (res, client) =
            call_crypto_box_open E
              (take (sizeof_curvecp_cookie E) (drop 8 (receiveBuffer client)))
              (sizeof_curvecp_cookie E) nc (serverPubkey client) (clientTempSecret client) client
      in case res of
           None \<Rightarrow> (- 1, client\<lparr>errorKind := osdg_decryption_error\<rparr>)
         | Some (serverShortTermPubkey, cookie) \<Rightarrow>
             (let client = client\<lparr>serverCookie := cookie\<rparr>;
                  (res, client) =
                    call_crypto_box_beforenm E serverShortTermPubkey (clientTempSecret client) client
              in case res of
                   None \<Rightarrow> (- 1, client\<lparr>errorKind := osdg_encryption_error\<rparr>)
                 | Some k \<Rightarrow>
                     (let client = client\<lparr>beforenmData := k\<rparr>;
                          innerData =
                            Plain_vouch_inner (replicate crypto_box_ZEROBYTES 0)
                              (clientTempPubkey client);
                          (r, client) = call_randombytes E 16 client;
                          nc = Long_term_nonce ''CurveCPV'' r;
                          (res, client) =
                            call_crypto_box E innerData (sizeof_curvecp_vouch_inner E) nc
                              (serverPubkey client) (clientSecret client) client
                      in case res of
                           None \<Rightarrow> (- 1, client\<lparr>errorKind := osdg_encryption_error\<rparr>)
                         | Some inner \<Rightarrow>
                             (let outerData =
                                    \<lparr>outerPad_001 = replicate crypto_box_ZEROBYTES 0,
                                     vouch_clientPubkey_001 = clientPubkey client,
                                     vouch_nonce_001 = nonce_value_1_2 nc,
                                     curvecp_vouch_inner_001 = inner,
                                     certStrType = 1,
                                     certStrLength = of_nat (sizeof_certStr E),
                                     certStr = take (sizeof_certStr E) ''certificate'',
                                     valueType = 0,
                                     valueLength = of_nat (sizeof_license E),
                                     license = replicate (sizeof_license E) 0\<rparr>;
                                  header = build_header E CMD_VOCH (sizeof_packetVOCH_001 E);
                                  (n, client) = client_get_nonce client;
                                  nc = build_short_term_nonce ''CurveCP-client-I'' n;
                                  (res, client) =
                                    call_crypto_box_afternm E (Plain_vouch_outer_001 outerData)
                                      (sizeof_curvecp_vouch_outer_001 E) nc (beforenmData client)
                                      client
                              in case res of
                                   None \<Rightarrow> (- 1, client\<lparr>errorKind := osdg_encryption_error\<rparr>)
                                 | Some c \<Rightarrow>
                                     send_packet_001 E
                                       (Packet_VOCH header (serverCookie client)
                                          (nonce_value_2 nc) c)
                                       client))))"

definition receive_packet_CMD_REDY_001 ::
  "'w externals \<Rightarrow> 'w osdg_connection \<Rightarrow> int \<times> 'w osdg_connection" where
  "receive_packet_CMD_REDY_001 E client =
     (let (payload, client) = decryptMESG E ''CurveCP-server-R'' client
      in case payload of
           None \<Rightarrow> (- 1, client)
         | Some p \<Rightarrow>
             (let protocolVer =
                    \<lparr>pv_magic = PROTOCOL_VERSION_MAGIC E,
                     pv_major = PROTOCOL_VERSION_MAJOR E,
                     pv_minor = PROTOCOL_VERSION_MINOR E\<rparr>
              in sendMESG_001 E client MSG_PROTOCOL_VERSION protocolVer))"

text \<open>
  The \<^verbatim>\<open>CMD_MESG\<close> branch, which reads \<^verbatim>\<open>ret\<close> as the reader left it. The payload has the
  fields \<^verbatim>\<open>dataSize\<close> (2 bytes), \<^verbatim>\<open>dataType\<close> (1 byte) and \<^verbatim>\<open>data\<close>; it lies behind the 32 bytes
  of padding at the start of the buffer, \<^verbatim>\<open>dataType\<close> at offset 34. The second condition
  of the source is the assignment \<^verbatim>\<open>payload->dataType = MSG_PEER_REPLY\<close>: it stores the
  constant and is true when the constant is not zero.
\<close>

definition receive_packet_MSG_PROTOCOL_VERSION_001 ::
  "'w externals \<Rightarrow> int \<Rightarrow> bytes \<Rightarrow> 'w osdg_connection \<Rightarrow> int \<times> 'w osdg_connection" where
  "receive_packet_MSG_PROTOCOL_VERSION_001 E ret d client =
     (case protocol_version__unpack E d of
        None \<Rightarrow> (- 1, client\<lparr>errorKind := osdg_protocol_error\<rparr>)
      | Some protocolVer \<Rightarrow>
          (let ret =
                 (if pv_magic protocolVer \<noteq> PROTOCOL_VERSION_MAGIC E then ret
                  else if pv_major protocolVer \<noteq> PROTOCOL_VERSION_MAJOR E
                          \<or> pv_minor protocolVer \<noteq> PROTOCOL_VERSION_MINOR E then - 1
                  else 0)
           in if ret \<noteq> 0 then (ret, client\<lparr>errorKind := osdg_protocol_error\<rparr>)
              else (0, client)))"

definition receive_packet_MSG_PEER_REPLY_001 ::
  "'w externals \<Rightarrow> bytes \<Rightarrow> 'w osdg_connection \<Rightarrow> int \<times> 'w osdg_connection" where
  "receive_packet_MSG_PEER_REPLY_001 E d client =
     (case peer_reply__unpack E d of
        None \<Rightarrow> (0, client)
      | Some reply \<Rightarrow>
          (case client_find_peer E client (pr_id reply) of
             Some peer \<Rightarrow>
               (let (ret, client) = call_peer_handle_connect_reply E peer reply client
                in (0, client))
           | None \<Rightarrow> (0, client)))"

text \<open>
  The bytes handed to the decoders: \<^verbatim>\<open>length\<close> bytes from \<^verbatim>\<open>payload->data\<close>, where
  \<^verbatim>\<open>length = SWAP_16(payload->dataSize) - sizeof(payload->dataType)\<close> is an \<^verbatim>\<open>unsigned int\<close>.
\<close>

definition mesg_payload_data_001 :: "bytes \<Rightarrow> bytes" where
  "mesg_payload_data_001 p =
     (let len = (ucast (SWAP_16 (load_u16 p)) :: 32 word) - 1
      in take (unat len) (drop 3 p))"

definition receive_packet_CMD_MESG_001 ::
  "'w externals \<Rightarrow> int \<Rightarrow> 'w osdg_connection \<Rightarrow> int \<times> 'w osdg_connection" where
  "receive_packet_CMD_MESG_001 E ret client =
     (let (payload, client) = decryptMESG E ''CurveCP-server-M'' client
      in case payload of
           None \<Rightarrow> (- 1, client)
         | Some p \<Rightarrow>
             (let dataType = p ! 2;
                  d = mesg_payload_data_001 p
              in if dataType = MSG_PROTOCOL_VERSION
                 then receive_packet_MSG_PROTOCOL_VERSION_001 E ret d client
                 else (let client =
                             client\<lparr>receiveBuffer :=
                                      (receiveBuffer client)
                                        [crypto_box_ZEROBYTES + 2 := MSG_PEER_REPLY]\<rparr>
                       in if MSG_PEER_REPLY \<noteq> 0
                          then receive_packet_MSG_PEER_REPLY_001 E d client
                          else (0, client))))"

definition receive_packet_frame_001 ::
  "'w externals \<Rightarrow> int \<Rightarrow> 'w osdg_connection \<Rightarrow> int \<times> 'w osdg_connection" where
  "receive_packet_frame_001 E ret client =
     (let header = received_header (receiveBuffer client)
      in if ret \<le> 0 then (ret, client)
         else if h_magic header \<noteq> PACKET_MAGIC E
           then (- 1, client\<lparr>errorKind := osdg_protocol_error\<rparr>)
         else if h_command header = CMD_WELC then receive_packet_CMD_WELC_001 E client
         else if h_command header = CMD_COOK then receive_packet_CMD_COOK_001 E client
         else if h_command header = CMD_REDY then receive_packet_CMD_REDY_001 E client
         else if h_command header = CMD_MESG then receive_packet_CMD_MESG_001 E ret client
         else (0, client))"

definition receive_packet_001 ::
  "'w externals \<Rightarrow> 'w osdg_connection \<Rightarrow> int \<times> 'w osdg_connection" where
  "receive_packet_001 E client =
     (case receive_packet_read E client of
        Inl ret_client \<Rightarrow> ret_client
      | Inr (ret, client) \<Rightarrow> receive_packet_frame_001 E ret client)"

section \<open>Received packets\<close>


definition received_packet_001 ::
  "'w externals \<Rightarrow> 'w osdg_connection \<Rightarrow> int \<Rightarrow> 'w osdg_connection \<Rightarrow> bytes \<Rightarrow> bool" where
  "received_packet_001 E client ret c cmd \<longleftrightarrow>
     receive_packet_read E client = Inr (ret, c)
     \<and> 0 < ret
     \<and> h_magic (received_header (receiveBuffer c)) = PACKET_MAGIC E
     \<and> h_command (received_header (receiveBuffer c)) = cmd"

section \<open>An example environment\<close>

text \<open>
  A concrete outside world on which the functions above can be run. The socket is the
  list of the bytes still to arrive; \<open>example_receive_data\<close> moves up to \<^verbatim>\<open>bytesLeft\<close> of them
  into the receive buffer at \<^verbatim>\<open>bytesReceived\<close> and answers as the reader expects: 0 while the
  requested bytes are incomplete, the number of bytes received once they are complete.
  The cryptographic functions are stand-ins without secrecy (a box opens to the bytes
  behind its first 32), the decoders read a message from one to three bytes.
\<close>

definition example_receive_data :: "bytes osdg_connection \<Rightarrow> int \<times> bytes osdg_connection" where
  "example_receive_data client =
     (let n = min (bytesLeft client) (length (world client));
          client =
            client\<lparr>receiveBuffer :=
                     take (bytesReceived client) (receiveBuffer client) @ take n (world client)
                     @ drop (bytesReceived client + n) (receiveBuffer client),
                   bytesReceived := bytesReceived client + n,
                   bytesLeft := bytesLeft client - n,
                   world := drop n (world client)\<rparr>
      in (if bytesLeft client = 0 then int (bytesReceived client) else 0, client))"

definition example_externals :: "bytes externals" where
  "example_externals =
     \<lparr>PACKET_MAGIC = 0x9FF0,
      FORWARD_REMOTE_SIGNATURE = ''MDG-SIG-PLACEHOLDER'',
      PROTOCOL_VERSION_MAGIC = 0xF09D8C95,
      PROTOCOL_VERSION_MAJOR = 1,
      PROTOCOL_VERSION_MINOR = 0,
      sizeof_packetHELO = 128,
      sizeof_helo_ciphertext = 80,
      sizeof_curvecp_cookie = 160,
      sizeof_curvecp_vouch_inner = 64,
      sizeof_curvecp_vouch_outer = 129,
      sizeof_packetVOCH = 225,
      sizeof_packetMESG = 34,
      sizeof_mesg_payload = 34,
      sizeof_packetVOCH_001 = 272,
      sizeof_curvecp_vouch_outer_001 = 176,
      sizeof_certStr = 11,
      sizeof_license = 32,
      receive_data = example_receive_data,
      send_data = (\<lambda>p n client. (osdg_no_error, world client)),
      send_data_001 = (\<lambda>p n client. (0, world client)),
      crypto_box_keypair = (\<lambda>w. (([6, 6], [7, 7]), w)),
      randombytes = (\<lambda>n w. (replicate n 9, w)),
      crypto_box = (\<lambda>m n nc pk sk. Some [0xC0]),
      crypto_box_open = (\<lambda>c n nc pk sk. Some ([3, 3], [4, 4])),
      crypto_box_beforenm = (\<lambda>pk sk. Some [5, 5]),
      crypto_box_afternm = (\<lambda>m n nc k. Some [0xC1]),
      crypto_box_open_afternm = (\<lambda>c n nc k. Some (drop 32 c)),
      forward_reply__unpack =
        (\<lambda>d. case d of
               [] \<Rightarrow> None
             | b # bs \<Rightarrow>
                 Some \<lparr>signature = (if b = 1 then ''MDG-SIG-PLACEHOLDER'' else ''other'')\<rparr>),
      forward_error__unpack =
        (\<lambda>d. case d of
               [] \<Rightarrow> None
             | b # bs \<Rightarrow>
                 Some \<lparr>code = (if b = 1 then FORWARD_SERVER_ERROR
                               else if b = 2 then FORWARD_PEER_TIMEOUT
                               else FORWARD_OTHER (uint b))\<rparr>),
      protocol_version__unpack =
        (\<lambda>d. case d of
               [a, b, c] \<Rightarrow>
                 Some \<lparr>pv_magic = (if a = 1 then 0xF09D8C95 else 0),
                       pv_major = ucast b, pv_minor = ucast c\<rparr>
             | _ \<Rightarrow> None),
      peer_reply__unpack =
        (\<lambda>d. case d of [] \<Rightarrow> None | b # bs \<Rightarrow> Some \<lparr>pr_id = ucast b\<rparr>),
      protobuf_c_message_pack = (\<lambda>v. [1, ucast (pv_major v), ucast (pv_minor v)]),
      connection_handle_data = (\<lambda>d n client. (osdg_no_error, client)),
      client_find_peer = (\<lambda>client i. if i = 7 then Some 1 else None),
      peer_handle_connect_reply = (\<lambda>peer reply w. (0, w))\<rparr>"

text \<open>
  A connection with an empty receive buffer of \<open>n\<close> bytes, in the given mode, on whose
  socket the bytes \<open>w\<close> are about to arrive.
\<close>

definition example_connection :: "connection_mode \<Rightarrow> nat \<Rightarrow> bytes \<Rightarrow> bytes osdg_connection" where
  "example_connection m n w =
     \<lparr>clientPubkey = [1, 1],
      clientSecret = [2, 2],
      serverPubkey = [],
      clientTempPubkey = [],
      clientTempSecret = [],
      serverCookie = [],
      beforenmData = [],
      nonce = 1,
      mode = m,
      status = osdg_handshaking,
      errorKind = osdg_no_error,
      bufferSize = n,
      receiveBuffer = replicate n 0,
      bytesReceived = 0,
      bytesLeft = 0,
      world = w,
      calls = []\<rparr>"

text \<open>
  The connection after the reader has taken the frame \<open>frame\<close> from the socket in two reads
  (the length, then the body).
\<close>

definition example_received :: "connection_mode \<Rightarrow> nat \<Rightarrow> bytes \<Rightarrow> bytes osdg_connection" where
  "example_received m n frame =
     (example_connection m n [])
       \<lparr>receiveBuffer := frame @ replicate (n - length frame) 0,
          bytesReceived := length frame,
          calls := [Call_receive_data, Call_receive_data]\<rparr>"



definition example_MESG :: "bytes \<Rightarrow> bytes" where
  "example_MESG body =
     [0x00, 0x24, 0xF0, 0x9F, 0x4D, 0x45, 0x53, 0x47, 0, 0, 0, 0, 0, 0, 0, 2,
      0xAA, 0xAA, 0xAA, 0xAA, 0xAA, 0xAA, 0xAA, 0xAA, 0xAA, 0xAA, 0xAA, 0xAA, 0xAA, 0xAA, 0xAA, 0xAA]
     @ body"


section \<open>Lemmas on byte order and evaluation\<close>

lemma replicate_numeral:
  "replicate (numeral k) x = x # replicate (pred_numeral k) x"
  by (simp only: numeral_eq_Suc [of k] replicate_Suc)

lemma store_le_numeral:
  "store_le (numeral k) v = of_nat (v mod 256) # store_le (pred_numeral k) (v div 256)"
  by (simp only: numeral_eq_Suc [of k] store_le.simps)

lemma list_update_Cons_numeral:
  "(x # xs)[numeral k := y] = x # xs[pred_numeral k := y]"
  by (simp only: numeral_eq_Suc [of k] list_update.simps nat.case)













lemma SWAP_16_6: "SWAP_16 6 = 0x0600"
  by (simp add: SWAP_16_def store_le_numeral)

lemma SWAP_16_0600: "SWAP_16 0x0600 = 6"
  by (simp add: SWAP_16_def store_le_numeral)

section \<open>The nonce counter\<close>







section \<open>The reader and the forwarding envelope\<close>

lemma sent_packets_append:
  "sent_packets (xs @ ys) = sent_packets xs @ sent_packets ys"
  by (induction xs rule: sent_packets.induct) simp_all


lemma msg_distinct:
  "MSG_FORWARD_REPLY \<noteq> MSG_FORWARD_HOLD" "MSG_FORWARD_ERROR \<noteq> MSG_FORWARD_HOLD"
  "MSG_FORWARD_ERROR \<noteq> MSG_FORWARD_REPLY"
  by (simp_all add: MSG_FORWARD_REPLY_def MSG_FORWARD_HOLD_def MSG_FORWARD_ERROR_def)

lemmas example_defs =
  example_externals_def example_connection_def example_receive_data_def example_received_def

lemmas read_defs =
  receive_packet_read_def receive_packet_start_def call_receive_data_def
  declared_size_def sizeof_unsigned_short_def Let_def replicate_numeral

lemmas example_read_defs = example_defs read_defs

lemma receive_packet_read_calls_exceeded:
  assumes "receive_data E (receive_packet_start client) = (2, c)"
      and "bufferSize c < unat (declared_size (receiveBuffer c)) + 2"
  shows "receive_packet_read E client
       = Inl (- 1, c\<lparr>errorKind := osdg_buffer_exceeded, calls := calls client @ [Call_receive_data]\<rparr>)"
  using assms
  by (simp add: receive_packet_read_def call_receive_data_def sizeof_unsigned_short_def
      receive_packet_start_def)

text \<open>
  Claim C2. When the first read delivers the two length bytes (\<^verbatim>\<open>receive_data\<close> returns
  \<^verbatim>\<open>sizeof(unsigned short)\<close>) and the size they declare, plus 2, exceeds \<^verbatim>\<open>bufferSize\<close>, then
  \<^verbatim>\<open>receive_packet\<close> returns -1 with the error kind \<^verbatim>\<open>osdg_buffer_exceeded\<close>. The connection is
  otherwise as that first read left it, and the only call to the outside is that one read:
  no second read of body bytes and no cryptographic operation. This holds in both
  revisions of the function.
\<close>

theorem C2_buffer_exceeded:
  assumes "receive_data E (receive_packet_start client) = (2, c)"
      and "bufferSize c < unat (declared_size (receiveBuffer c)) + 2"
  shows "receive_packet E client
           = (- 1, c\<lparr>errorKind := osdg_buffer_exceeded,
                     calls := calls client @ [Call_receive_data]\<rparr>)
       \<and> receive_packet_001 E client
           = (- 1, c\<lparr>errorKind := osdg_buffer_exceeded,
                     calls := calls client @ [Call_receive_data]\<rparr>)"
  using receive_packet_read_calls_exceeded [OF assms]
  by (simp add: receive_packet_def receive_packet_001_def)

text \<open>A length prefix \<^verbatim>\<open>0xFFFF\<close> on a connection with a buffer of 8 bytes.\<close>

theorem C2_witness:
  "receive_packet example_externals (example_connection mode_grid 8 [0xFF, 0xFF, 0x0F])
     = (- 1, (example_connection mode_grid 8 [0x0F])
               \<lparr>receiveBuffer := [0xFF, 0xFF, 0, 0, 0, 0, 0, 0], bytesReceived := 2,
                  errorKind := osdg_buffer_exceeded, calls := [Call_receive_data]\<rparr>)
   \<and> receive_packet_001 example_externals (example_connection mode_grid 8 [0xFF, 0xFF, 0x0F])
     = (- 1, (example_connection mode_grid 8 [0x0F])
               \<lparr>receiveBuffer := [0xFF, 0xFF, 0, 0, 0, 0, 0, 0], bytesReceived := 2,
                  errorKind := osdg_buffer_exceeded, calls := [Call_receive_data]\<rparr>)"
  using C2_buffer_exceeded [of example_externals "example_connection mode_grid 8 [0xFF, 0xFF, 0x0F]"
      "(example_connection mode_grid 8 [0x0F])
         \<lparr>receiveBuffer := [0xFF, 0xFF, 0, 0, 0, 0, 0, 0], bytesReceived := 2\<rparr>"]
  by (simp add: example_read_defs)

text \<open>
  Claim C10. Whenever the reader has delivered a frame (\<^verbatim>\<open>ret > 0\<close>) and the byte at offset 2
  of the receive buffer is \<^verbatim>\<open>MSG_FORWARD_HOLD\<close>, \<^verbatim>\<open>receive_packet\<close> returns 0 and leaves the
  connection as the reader left it, whatever the mode, the status and the rest of the
  frame: the test comes before the length and magic checks of the packet header.
\<close>

theorem C10_forward_hold_dropped:
  assumes "receive_packet_read E client = Inr (ret, c)"
      and "0 < ret"
      and "receiveBuffer c ! 2 = MSG_FORWARD_HOLD"
  shows "receive_packet E client = (0, c)"
  using assms by (simp add: receive_packet_def receive_packet_frame_def)

text \<open>A three-byte frame with \<^verbatim>\<open>MSG_FORWARD_HOLD\<close> on a connection in peer mode.\<close>

lemma example_read_HOLD:
  "receive_packet_read example_externals (example_connection mode_peer 8 [0, 1, 0x0F])
     = Inr (3, (example_connection mode_peer 8 [])
                 \<lparr>receiveBuffer := [0, 1, 0x0F, 0, 0, 0, 0, 0], bytesReceived := 3,
                    calls := [Call_receive_data, Call_receive_data]\<rparr>)"
  by (simp add: example_read_defs)

theorem C10_witness:
  "receive_packet example_externals (example_connection mode_peer 8 [0, 1, 0x0F])
     = (0, (example_connection mode_peer 8 [])
             \<lparr>receiveBuffer := [0, 1, 0x0F, 0, 0, 0, 0, 0], bytesReceived := 3,
                calls := [Call_receive_data, Call_receive_data]\<rparr>)"
  by (rule C10_forward_hold_dropped [OF example_read_HOLD]) (simp_all add: example_connection_def MSG_FORWARD_HOLD_def)

text \<open>
  Claim C3. When a complete frame with \<^verbatim>\<open>MSG_FORWARD_ERROR\<close> at offset 2 has been received and
  its payload decodes to a \<^verbatim>\<open>ForwardError\<close>, \<^verbatim>\<open>receive_packet\<close> returns -1 and sets the error
  kind to \<^verbatim>\<open>osdg_server_error\<close> for the code \<^verbatim>\<open>FORWARD_SERVER_ERROR\<close>, to \<^verbatim>\<open>osdg_peer_timeout\<close> for
  \<^verbatim>\<open>FORWARD_PEER_TIMEOUT\<close> and to \<^verbatim>\<open>osdg_protocol_error\<close> for every other code.
\<close>

theorem C3_forward_error:
  assumes "receive_packet_read E client = Inr (ret, c)"
      and "0 < ret"
      and "receiveBuffer c ! 2 = MSG_FORWARD_ERROR"
      and "forward_error__unpack E (DataPacket_payload (receiveBuffer c)) = Some reply"
  shows "receive_packet E client
           = (- 1, c\<lparr>errorKind :=
                        if code reply = FORWARD_SERVER_ERROR then osdg_server_error
                        else if code reply = FORWARD_PEER_TIMEOUT then osdg_peer_timeout
                        else osdg_protocol_error\<rparr>)"
  using assms
  by (simp add: receive_packet_def receive_packet_frame_def receive_packet_MSG_FORWARD_ERROR_def
      msg_distinct split: forward_error_code.splits)

text \<open>A \<^verbatim>\<open>ForwardError\<close> with the code \<^verbatim>\<open>FORWARD_PEER_TIMEOUT\<close>.\<close>

lemma example_read_FORWARD_ERROR:
  "receive_packet_read example_externals (example_connection mode_peer 8 [0, 2, 0x12, 2])
     = Inr (4, (example_connection mode_peer 8 [])
                 \<lparr>receiveBuffer := [0, 2, 0x12, 2, 0, 0, 0, 0], bytesReceived := 4,
                    calls := [Call_receive_data, Call_receive_data]\<rparr>)"
  by (simp add: example_read_defs)

lemma example_DataPacket_payload:
  "DataPacket_payload [0, 2, t, b, 0, 0, 0, 0] = [b]"
  by (simp add: DataPacket_payload_def load_u16_def SWAP_16_def store_le_numeral)

theorem C3_witness:
  "receive_packet example_externals (example_connection mode_peer 8 [0, 2, 0x12, 2])
     = (- 1, (example_connection mode_peer 8 [])
               \<lparr>receiveBuffer := [0, 2, 0x12, 2, 0, 0, 0, 0], bytesReceived := 4,
                  errorKind := osdg_peer_timeout,
                  calls := [Call_receive_data, Call_receive_data]\<rparr>)"
proof -
  let ?c = "(example_connection mode_peer 8 [])
              \<lparr>receiveBuffer := [0, 2, 0x12, 2, 0, 0, 0, 0], bytesReceived := 4,
                 calls := [Call_receive_data, Call_receive_data]\<rparr>"
  have t: "receiveBuffer ?c ! 2 = MSG_FORWARD_ERROR"
    by (simp add: MSG_FORWARD_ERROR_def)
  have u: "forward_error__unpack example_externals (DataPacket_payload (receiveBuffer ?c))
         = Some \<lparr>code = FORWARD_PEER_TIMEOUT\<rparr>"
    by (simp add: example_DataPacket_payload example_externals_def)
  show ?thesis
    using C3_forward_error [OF example_read_FORWARD_ERROR _ t u] by simp
qed

lemma sendTELL_calls:
  "calls (snd (sendTELL E conn))
     = calls conn @ [Call_send_data
                       (Packet_header \<lparr>h_size = 0x0600, h_magic = PACKET_MAGIC E, h_command = CMD_TELL\<rparr>)
                       sizeof_packet_header]"
  by (simp add: sendTELL_def send_packet_def call_send_data_def build_header_def PACKET_SIZE_def
      connection_set_result_def sizeof_packet_header_def sizeof_unsigned_short_def
      SWAP_16_6 SWAP_16_0600 Let_def case_prod_beta)

text \<open>
  Claim C5. When a complete frame with \<^verbatim>\<open>MSG_FORWARD_REPLY\<close> at offset 2 has been received, its
  payload decodes to a \<^verbatim>\<open>ForwardReply\<close> and the signature equals \<^verbatim>\<open>FORWARD_REMOTE_SIGNATURE\<close>,
  the one call that \<^verbatim>\<open>receive_packet\<close> makes is \<^verbatim>\<open>send_data\<close> with a packet header of command
  \<^verbatim>\<open>CMD_TELL\<close> and with the size of the header alone (8 bytes, length field 6): a \<^verbatim>\<open>TELL\<close> without
  payload.
\<close>

theorem C5_forward_reply_sends_TELL:
  assumes "receive_packet_read E client = Inr (ret, c)"
      and "0 < ret"
      and "receiveBuffer c ! 2 = MSG_FORWARD_REPLY"
      and "forward_reply__unpack E (DataPacket_payload (receiveBuffer c)) = Some reply"
      and "signature reply = FORWARD_REMOTE_SIGNATURE E"
  shows "calls (snd (receive_packet E client))
           = calls c @ [Call_send_data
                          (Packet_header
                             \<lparr>h_size = 0x0600, h_magic = PACKET_MAGIC E, h_command = CMD_TELL\<rparr>)
                          sizeof_packet_header]"
  using assms
  by (simp add: receive_packet_def receive_packet_frame_def receive_packet_MSG_FORWARD_REPLY_def
      msg_distinct strcmp_def sendTELL_calls)

text \<open>A \<^verbatim>\<open>ForwardReply\<close> with the expected signature.\<close>

lemma example_read_FORWARD_REPLY_1:
  "receive_packet_read example_externals (example_connection mode_peer 8 [0, 2, 0x11, 1])
     = Inr (4, (example_connection mode_peer 8 [])
                 \<lparr>receiveBuffer := [0, 2, 0x11, 1, 0, 0, 0, 0], bytesReceived := 4,
                    calls := [Call_receive_data, Call_receive_data]\<rparr>)"
  by (simp add: example_read_defs)

theorem C5_witness:
  "calls (snd (receive_packet example_externals (example_connection mode_peer 8 [0, 2, 0x11, 1])))
     = [Call_receive_data, Call_receive_data,
        Call_send_data
          (Packet_header \<lparr>h_size = 0x0600, h_magic = 0x9FF0, h_command = [0x54, 0x45, 0x4C, 0x4C]\<rparr>)
          8]"
proof -
  let ?c = "(example_connection mode_peer 8 [])
              \<lparr>receiveBuffer := [0, 2, 0x11, 1, 0, 0, 0, 0], bytesReceived := 4,
                 calls := [Call_receive_data, Call_receive_data]\<rparr>"
  have t: "receiveBuffer ?c ! 2 = MSG_FORWARD_REPLY"
    by (simp add: MSG_FORWARD_REPLY_def)
  have u: "forward_reply__unpack example_externals (DataPacket_payload (receiveBuffer ?c))
         = Some \<lparr>signature = ''MDG-SIG-PLACEHOLDER''\<rparr>"
    by (simp add: example_DataPacket_payload example_externals_def)
  have v: "signature \<lparr>signature = ''MDG-SIG-PLACEHOLDER''\<rparr>
         = FORWARD_REMOTE_SIGNATURE example_externals"
    by (simp add: example_externals_def)
  have m: "PACKET_MAGIC example_externals = 0x9FF0"
    by (simp add: example_externals_def)
  show ?thesis
    using C5_forward_reply_sends_TELL [OF example_read_FORWARD_REPLY_1 _ t u v]
    by (simp add: m sizeof_packet_header_def CMD_TELL_def example_connection_def)
qed

text \<open>
  A \<^verbatim>\<open>ForwardReply\<close> whose signature differs: \<^verbatim>\<open>receive_packet\<close> returns -1 and leaves the
  connection as the reader left it. In particular it does not set the error kind.
\<close>

lemma forward_reply_signature_mismatch:
  assumes "receive_packet_read E client = Inr (ret, c)"
      and "0 < ret"
      and "receiveBuffer c ! 2 = MSG_FORWARD_REPLY"
      and "forward_reply__unpack E (DataPacket_payload (receiveBuffer c)) = Some reply"
      and "signature reply \<noteq> FORWARD_REMOTE_SIGNATURE E"
  shows "receive_packet E client = (- 1, c)"
  using assms
  by (simp add: receive_packet_def receive_packet_frame_def receive_packet_MSG_FORWARD_REPLY_def
      msg_distinct strcmp_def)


lemma example_read_FORWARD_REPLY_9:
  "receive_packet_read example_externals (example_connection mode_peer 8 [0, 2, 0x11, 9])
     = Inr (4, (example_connection mode_peer 8 [])
                 \<lparr>receiveBuffer := [0, 2, 0x11, 9, 0, 0, 0, 0], bytesReceived := 4,
                    calls := [Call_receive_data, Call_receive_data]\<rparr>)"
  by (simp add: example_read_defs)

text \<open>
  Claim C4 says that a signature mismatch ends with the error kind \<^verbatim>\<open>osdg_protocol_error\<close>.
  The code returns -1 without setting it: on a connection whose error kind is
  \<^verbatim>\<open>osdg_no_error\<close>, a \<^verbatim>\<open>ForwardReply\<close> with another signature leaves \<^verbatim>\<open>osdg_no_error\<close>. The
  decoding failure two lines above it, and every other failing path of the function, sets
  the error kind before returning -1.
\<close>

theorem C4_signature_mismatch:
  "receive_packet example_externals (example_connection mode_peer 8 [0, 2, 0x11, 9])
     = (- 1, (example_connection mode_peer 8 [])
               \<lparr>receiveBuffer := [0, 2, 0x11, 9, 0, 0, 0, 0], bytesReceived := 4,
                  calls := [Call_receive_data, Call_receive_data]\<rparr>)
   \<and> errorKind (snd (receive_packet example_externals
                         (example_connection mode_peer 8 [0, 2, 0x11, 9]))) = osdg_no_error"
proof -
  let ?c = "(example_connection mode_peer 8 [])
              \<lparr>receiveBuffer := [0, 2, 0x11, 9, 0, 0, 0, 0], bytesReceived := 4,
                 calls := [Call_receive_data, Call_receive_data]\<rparr>"
  have t: "receiveBuffer ?c ! 2 = MSG_FORWARD_REPLY"
    by (simp add: MSG_FORWARD_REPLY_def)
  have u: "forward_reply__unpack example_externals (DataPacket_payload (receiveBuffer ?c))
         = Some \<lparr>signature = ''other''\<rparr>"
    by (simp add: example_DataPacket_payload example_externals_def)
  have v: "signature \<lparr>signature = ''other''\<rparr> \<noteq> FORWARD_REMOTE_SIGNATURE example_externals"
    by (simp add: example_externals_def)
  show ?thesis
    using forward_reply_signature_mismatch [OF example_read_FORWARD_REPLY_9 _ t u v]
    by (simp add: example_connection_def)
qed


section \<open>The handshake packets\<close>

lemma cmd_distinct:
  "CMD_COOK \<noteq> CMD_WELC" "CMD_REDY \<noteq> CMD_WELC" "CMD_REDY \<noteq> CMD_COOK"
  "CMD_MESG \<noteq> CMD_WELC" "CMD_MESG \<noteq> CMD_COOK" "CMD_MESG \<noteq> CMD_REDY"
  by (simp_all add: CMD_WELC_def CMD_COOK_def CMD_REDY_def CMD_MESG_def)



lemma receive_packet_CMD_MESG_001_eq:
  assumes "received_packet_001 E client ret c CMD_MESG"
  shows "receive_packet_001 E client = receive_packet_CMD_MESG_001 E ret c"
  using assms
  by (simp add: received_packet_001_def receive_packet_001_def receive_packet_frame_001_def
      cmd_distinct)





























section \<open>The earlier revision: messages inside \<^verbatim>\<open>MESG\<close>\<close>


text \<open>A matching version (1.0), and a version with another major number (2.0).\<close>

lemma example_read_MESG:
  "receive_packet_read example_externals (example_connection m 40 (example_MESG [a, b, t, x, y, z]))
     = Inr (38, example_received m 40 (example_MESG [a, b, t, x, y, z]))"
  by (simp add: example_defs read_defs example_MESG_def)

lemma example_received_MESG:
  "received_packet_001 example_externals (example_connection m 40 (example_MESG [a, b, t, x, y, z]))
     38 (example_received m 40 (example_MESG [a, b, t, x, y, z])) CMD_MESG"
  unfolding received_packet_001_def
  by (simp add: example_read_MESG)
     (simp add: example_defs example_MESG_def received_header_def load_u16_def CMD_MESG_def)

lemma example_decrypt_MESG:
  "decryptMESG example_externals ''CurveCP-server-M''
       (example_received m 40 (example_MESG [a, b, t, x, y, z]))
     = (Some [a, b, t, x, y, z, 0, 0],
        (example_received m 40 (example_MESG [a, b, t, x, y, z]))
          \<lparr>receiveBuffer := replicate 32 0 @ [a, b, t, x, y, z, 0, 0],
             calls := [Call_receive_data, Call_receive_data,
                       Call_crypto_box_open_afternm
                         (replicate 16 0 @ replicate 16 0xAA @ [a, b, t, x, y, z]) 38
                         (Short_term_nonce ''CurveCP-server-M'' 0x0200000000000000) []]\<rparr>)"
  by (simp add: decryptMESG_def example_defs example_MESG_def Let_def received_header_def
      load_u16_def load_u64_def MESG_CIPHERTEXT_SIZE_def PACKET_SIZE_def SWAP_16_def
      store_le_numeral sizeof_unsigned_short_def build_short_term_nonce_def
      call_crypto_box_open_afternm_def crypto_box_BOXZEROBYTES_def crypto_box_ZEROBYTES_def
      replicate_numeral)

lemma example_mesg_payload_data:
  "mesg_payload_data_001 [0, 4, t, x, y, z, 0, 0] = [x, y, z]"
  by (simp add: mesg_payload_data_001_def load_u16_def SWAP_16_def store_le_numeral)



text \<open>
  Whatever the type of a decrypted \<^verbatim>\<open>MESG\<close>, if it is not \<^verbatim>\<open>MSG_PROTOCOL_VERSION\<close> the function
  goes on as for \<^verbatim>\<open>MSG_PEER_REPLY\<close>, and has overwritten the type in the buffer: the third
  branch of the source, for unhandled types, is never taken.
\<close>

lemma MESG_001_not_version:
  assumes "received_packet_001 E client ret c CMD_MESG"
      and "decryptMESG E ''CurveCP-server-M'' c = (Some p, c1)"
      and "p ! 2 \<noteq> MSG_PROTOCOL_VERSION"
  shows "receive_packet_001 E client
       = receive_packet_MSG_PEER_REPLY_001 E (mesg_payload_data_001 p)
           (c1\<lparr>receiveBuffer := (receiveBuffer c1)[34 := MSG_PEER_REPLY]\<rparr>)"
  using assms(2-3)
  by (simp add: receive_packet_CMD_MESG_001_eq [OF assms(1)] receive_packet_CMD_MESG_001_def
      Let_def MSG_PEER_REPLY_def crypto_box_ZEROBYTES_def)

lemmas model_defs_001 =
  receive_packet_001_def receive_packet_frame_001_def receive_packet_CMD_MESG_001_def
  receive_packet_MSG_PEER_REPLY_001_def receive_packet_MSG_PROTOCOL_VERSION_001_def
  mesg_payload_data_001_def call_peer_handle_connect_reply_def decryptMESG_def
  call_crypto_box_open_afternm_def PACKET_SIZE_def
  MESG_CIPHERTEXT_SIZE_def received_header_def load_u16_def load_u64_def SWAP_16_def
  store_le_numeral build_short_term_nonce_def crypto_box_BOXZEROBYTES_def
  crypto_box_ZEROBYTES_def MSG_PROTOCOL_VERSION_def MSG_PEER_REPLY_def
  CMD_WELC_def CMD_COOK_def CMD_REDY_def CMD_MESG_def list_update_Cons_numeral

text \<open>
  Claim C8 says that a \<^verbatim>\<open>MESG\<close> of a type other than \<^verbatim>\<open>MSG_PROTOCOL_VERSION\<close> and
  \<^verbatim>\<open>MSG_PEER_REPLY\<close> is only logged. The code's second condition is an assignment: a \<^verbatim>\<open>MESG\<close>
  of type 2 whose data decode as a \<^verbatim>\<open>PeerReply\<close> for the known peer 7 has its type
  overwritten with \<^verbatim>\<open>MSG_PEER_REPLY\<close> and is passed to \<^verbatim>\<open>peer_handle_connect_reply\<close>.
\<close>

theorem C8_peer_reply_branch_on_other_type:
  "[0, 4, 2, 7, 0, 0] ! 2 \<noteq> MSG_PEER_REPLY \<and> [0, 4, 2, 7, 0, 0] ! 2 \<noteq> MSG_PROTOCOL_VERSION
   \<and> receive_packet_001 example_externals (example_connection mode_grid 40 (example_MESG [0, 4, 2, 7, 0, 0]))
     = (0, (example_received mode_grid 40 (example_MESG [0, 4, 2, 7, 0, 0]))
             \<lparr>receiveBuffer := replicate 32 0 @ [0, 4, MSG_PEER_REPLY, 7, 0, 0, 0, 0],
                calls := [Call_receive_data, Call_receive_data,
                          Call_crypto_box_open_afternm
                            (replicate 16 0 @ replicate 16 0xAA @ [0, 4, 2, 7, 0, 0]) 38
                            (Short_term_nonce ''CurveCP-server-M'' 0x0200000000000000) [],
                          Call_peer_handle_connect_reply 1 \<lparr>pr_id = 7\<rparr>]\<rparr>)"
proof -
  let ?c1 = "(example_received mode_grid 40 (example_MESG [0, 4, 2, 7, 0, 0]))
               \<lparr>receiveBuffer := replicate 32 0 @ [0, 4, 2, 7, 0, 0, 0, 0],
                  calls := [Call_receive_data, Call_receive_data,
                            Call_crypto_box_open_afternm
                              (replicate 16 0 @ replicate 16 0xAA @ [0, 4, 2, 7, 0, 0]) 38
                              (Short_term_nonce ''CurveCP-server-M'' 0x0200000000000000) []]\<rparr>"
  have t: "[0, 4, 2, 7, 0, 0, 0, 0] ! 2 \<noteq> MSG_PROTOCOL_VERSION"
    and t': "[0, 4, 2, 7, 0, 0] ! 2 \<noteq> MSG_PEER_REPLY \<and> [0, 4, 2, 7, 0, 0] ! 2 \<noteq> MSG_PROTOCOL_VERSION"
    by (simp_all add: MSG_PROTOCOL_VERSION_def MSG_PEER_REPLY_def)
  have "receive_packet_001 example_externals
          (example_connection mode_grid 40 (example_MESG [0, 4, 2, 7, 0, 0]))
        = receive_packet_MSG_PEER_REPLY_001 example_externals [7, 0, 0]
            (?c1\<lparr>receiveBuffer := (receiveBuffer ?c1)[34 := MSG_PEER_REPLY]\<rparr>)"
    using MESG_001_not_version [OF example_received_MESG example_decrypt_MESG t]
    by (simp add: example_mesg_payload_data)
  also have "\<dots> = (0, ?c1\<lparr>receiveBuffer := replicate 32 0 @ [0, 4, MSG_PEER_REPLY, 7, 0, 0, 0, 0],
                           calls := calls ?c1 @ [Call_peer_handle_connect_reply 1 \<lparr>pr_id = 7\<rparr>]\<rparr>)"
    by (simp add: receive_packet_MSG_PEER_REPLY_001_def call_peer_handle_connect_reply_def
        example_defs replicate_numeral list_update_Cons_numeral)
  finally show ?thesis
    using t' by (simp add: example_defs)
qed

end
